theory Spec2Isabelle
  imports Complex_Main
begin

section \<open>Values, exceptions and response envelopes\<close>

text \<open>
  The tool operations of \<^verbatim>\<open>server.py\<close> and the orchestration methods of
  \<^verbatim>\<open>services/document_service.py\<close> return Python dictionaries and signal faults by
  exceptions. The dictionaries become records and a datatype of responses; a raised
  exception is the \<open>Inl\<close> side of a sum, so that every \<^verbatim>\<open>raise\<close> and every
  \<^verbatim>\<open>except\<close> clause of the source is a branch of the model. Python's \<^verbatim>\<open>float\<close>
  is idealised as \<open>real\<close>, \<^verbatim>\<open>int\<close> is \<open>int\<close>, \<^verbatim>\<open>len\<close> yields a \<open>nat\<close>.
\<close>

datatype pyval = VStr string | VInt int | VNone

type_synonym details = "(string \<times> pyval) list"

text \<open>
  The exception classes the two modules raise or catch. \<^verbatim>\<open>ParameterValidationError\<close>
  and \<^verbatim>\<open>KnowledgeBaseError\<close> come from \<^verbatim>\<open>errors.py\<close>, \<^verbatim>\<open>FileProcessingError\<close> from
  \<^verbatim>\<open>processors/file_readers.py\<close>; the code reads \<^verbatim>\<open>e.error_type\<close>, \<^verbatim>\<open>str(e)\<close> and
  \<^verbatim>\<open>e.details\<close> of the latter, so the three carry these fields. \<open>Exception\<close> stands
  for every other subclass of Python's \<^verbatim>\<open>Exception\<close>, with its message.
\<close>

datatype exc =
    ParameterValidationError string details
  | KnowledgeBaseError string string details
  | FileProcessingError string string details
  | RuntimeError string
  | Exception string

fun str :: "exc \<Rightarrow> string" where
  "str (ParameterValidationError m d) = m"
| "str (KnowledgeBaseError t m d) = m"
| "str (FileProcessingError t m d) = m"
| "str (RuntimeError m) = m"
| "str (Exception m) = m"

datatype datetime = Datetime string

fun isoformat :: "datetime \<Rightarrow> string" where
  "isoformat (Datetime s) = s"

record DocumentMetadata =
  id' :: string
  file_path :: string
  file_name :: string
  file_size :: int
  file_type :: string
  content_hash :: string
  ingestion_timestamp :: "datetime option"
  chunk_count :: int

record DocumentChunk =
  chunk_id :: string
  chunk_document_id :: string
  chunk_index :: int
  chunk_content :: string
  embedding :: "real list option"

record VectorSearchResult =
  document_id :: string
  content :: string
  score :: real

record SearchResult =
  sr_document_id :: string
  document_path :: string
  relevance_score :: real
  content_excerpt :: string
  metadata :: DocumentMetadata

text \<open>The serialised forms: the dictionaries built field by field in the source.\<close>

record document_dict =
  dd_id :: string
  dd_file_path :: string
  dd_file_name :: string
  dd_file_size :: int
  dd_file_type :: string
  dd_ingestion_timestamp :: "string option"
  dd_content_hash :: string
  dd_chunk_count :: int

record result_metadata_dict =
  rm_id :: string
  rm_file_name :: string
  rm_file_type :: string
  rm_file_size :: int
  rm_ingestion_timestamp :: "string option"
  rm_chunk_count :: int

record result_dict =
  rd_document_id :: string
  rd_document_path :: string
  rd_relevance_score :: real
  rd_content_excerpt :: string
  rd_metadata :: result_metadata_dict

record pagination =
  total_count :: int
  returned_count :: nat
  offset :: int
  limit :: "int option"

text \<open>
  A response dictionary. \<open>ErrorEnvelope\<close> is the dictionary with \<^verbatim>\<open>"success": False\<close>
  and the keys \<^verbatim>\<open>error_type\<close>, \<^verbatim>\<open>error_message\<close>, \<^verbatim>\<open>error_details\<close>; the other four
  are the \<^verbatim>\<open>"success": True\<close> dictionaries of the four operations, their last
  component being the \<^verbatim>\<open>message\<close> key.
\<close>

datatype response =
    ErrorEnvelope string string details
  | AddDocumentOk document_dict string
  | ListDocumentsOk "document_dict list" pagination string
  | SearchDocumentsOk "result_dict list" string nat string
  | ClearOk int string

fun success :: "response \<Rightarrow> bool" where
  "success (ErrorEnvelope t m d) = False"
| "success (AddDocumentOk doc m) = True"
| "success (ListDocumentsOk docs p m) = True"
| "success (SearchDocumentsOk rs q n m) = True"
| "success (ClearOk n m) = True"


section \<open>String helpers of the Python runtime\<close>

text \<open>
  \<^verbatim>\<open>str.strip()\<close> removes leading and trailing whitespace; on the 8-bit characters of
  \<open>string\<close> the whitespace of \<^verbatim>\<open>str.isspace\<close> is 9..13, 28..32, 133 and 160.
\<close>

definition is_space :: "char \<Rightarrow> bool" where
  "is_space c = (let n = (of_char c :: nat) in
     (9 \<le> n \<and> n \<le> 13) \<or> (28 \<le> n \<and> n \<le> 32) \<or> n = 133 \<or> n = 160)"

definition strip :: "string \<Rightarrow> string" where
  "strip s = rev (dropWhile is_space (rev (dropWhile is_space s)))"

definition digit_char :: "nat \<Rightarrow> char" where
  "digit_char n = ''0123456789'' ! (n mod 10)"

fun str_nat :: "nat \<Rightarrow> string" where
  "str_nat n = (if n < 10 then [digit_char n] else str_nat (n div 10) @ [digit_char n])"

declare str_nat.simps [simp del]

definition str_int :: "int \<Rightarrow> string" where
  "str_int i = (if i < 0 then CHR ''-'' # str_nat (nat (- i)) else str_nat (nat i))"

text \<open>
  \<^verbatim>\<open>round(x, 4)\<close> on the idealised reals: the nearest multiple of \<open>1/10000\<close>, a tie
  going to the even neighbour as Python's \<^verbatim>\<open>round\<close> does.
\<close>

definition round_half_even :: "real \<Rightarrow> int" where
  "round_half_even x = (let f = \<lfloor>x\<rfloor>; r = x - of_int f in
     if r < 1/2 then f else if 1/2 < r then f + 1 else if even f then f else f + 1)"

definition py_round :: "real \<Rightarrow> nat \<Rightarrow> real" where
  "py_round x ndigits = of_int (round_half_even (x * 10 ^ ndigits)) / 10 ^ ndigits"

section \<open>The collaborators of the orchestrator\<close>

text \<open>
  \<^verbatim>\<open>DocumentService\<close> owns a \<^verbatim>\<open>LanceDBManager\<close>, an \<^verbatim>\<open>EmbeddingService\<close> and a
  \<^verbatim>\<open>ContentExtractor\<close>; the tool layer calls validators of \<^verbatim>\<open>errors.py\<close>. Their
  modules are not among the sources, so the orchestrator is modelled over an environment
  of their operations. Each may raise; an operation that writes to the store returns the
  store it leaves behind, whether it raised or not. \<open>'s\<close> is the state of the store.
\<close>

record Config =
  chunk_size :: int
  chunk_overlap :: int

record 's env =
  from_env :: "exc + Config"
  new_db_manager :: "Config \<Rightarrow> exc + 's"
  initialize_database :: "'s \<Rightarrow> (exc + unit) \<times> 's"
  load_model :: "exc + unit"
  extract_and_chunk :: "string \<Rightarrow> exc + DocumentMetadata \<times> DocumentChunk list"
  utcnow :: datetime
  generate_embeddings :: "string list \<Rightarrow> exc + real list list"
  generate_embedding :: "string \<Rightarrow> exc + real list option"
  add_document_vectors :: "'s \<Rightarrow> DocumentMetadata \<Rightarrow> DocumentChunk list \<Rightarrow> (exc + unit) \<times> 's"
  list_all_documents :: "'s \<Rightarrow> int option \<Rightarrow> int \<Rightarrow> exc + DocumentMetadata list"
  get_document_count :: "'s \<Rightarrow> exc + int"
  get_document_metadata :: "'s \<Rightarrow> string \<Rightarrow> exc + DocumentMetadata option"
  search_vectors :: "'s \<Rightarrow> real list \<Rightarrow> int \<Rightarrow> exc + VectorSearchResult list"
  clear_all_documents :: "'s \<Rightarrow> (exc + int) \<times> 's"
  validate_file_path :: "string \<Rightarrow> exc + unit"
  validate_query_parameter :: "string \<Rightarrow> int \<Rightarrow> int \<Rightarrow> exc + unit"

section \<open>DocumentService\<close>

record 's DocumentService =
  initialized :: bool
  db_manager :: "'s"

text \<open>\<^verbatim>\<open>DocumentService.__init__\<close>: builds the components, \<^verbatim>\<open>_initialized = False\<close>.\<close>

definition new_DocumentService :: "'s env \<Rightarrow> Config \<Rightarrow> exc + 's DocumentService" where
  "new_DocumentService env config =
     (case new_db_manager env config of
        Inl e \<Rightarrow> Inl e
      | Inr s \<Rightarrow> Inr \<lparr>initialized = False, db_manager = s\<rparr>)"

text \<open>
  \<^verbatim>\<open>DocumentService.initialize\<close>: any failure is re-raised as a plain \<^verbatim>\<open>Exception\<close>
  and leaves \<^verbatim>\<open>_initialized\<close> as it was.
\<close>

definition initialize :: "'s env \<Rightarrow> 's DocumentService \<Rightarrow> (exc + unit) \<times> 's DocumentService" where
  "initialize env self =
     (case initialize_database env (db_manager self) of
        (Inl e, s) \<Rightarrow>
          (Inl (Exception (''Document service initialization failed: '' @ str e)),
           self\<lparr>db_manager := s\<rparr>)
      | (Inr u, s) \<Rightarrow>
          (case load_model env of
             Inl e \<Rightarrow>
               (Inl (Exception (''Document service initialization failed: '' @ str e)),
                self\<lparr>db_manager := s\<rparr>)
           | Inr u' \<Rightarrow> (Inr (), self\<lparr>db_manager := s, initialized := True\<rparr>)))"

definition ensure_initialized :: "'s DocumentService \<Rightarrow> exc + unit" where
  "ensure_initialized self =
     (if \<not> initialized self
      then Inl (RuntimeError ''Document service not initialized. Call initialize() first.'')
      else Inr ())"

definition document_to_dict :: "DocumentMetadata \<Rightarrow> document_dict" where
  "document_to_dict doc =
     \<lparr>dd_id = id' doc, dd_file_path = file_path doc, dd_file_name = file_name doc,
      dd_file_size = file_size doc, dd_file_type = file_type doc,
      dd_ingestion_timestamp = map_option isoformat (ingestion_timestamp doc),
      dd_content_hash = content_hash doc, dd_chunk_count = chunk_count doc\<rparr>"


subsection \<open>add_document\<close>



subsection \<open>list_documents\<close>

definition list_documents_body ::
  "'s env \<Rightarrow> 's DocumentService \<Rightarrow> int option \<Rightarrow> int \<Rightarrow> exc + response" where
  "list_documents_body env self lmt off =
     (case list_all_documents env (db_manager self) lmt off of
        Inl e \<Rightarrow> Inl e
      | Inr documents \<Rightarrow>
          (let document_list = map document_to_dict documents in
           case get_document_count env (db_manager self) of
             Inl e \<Rightarrow> Inl e
           | Inr n_total \<Rightarrow>
               Inr (ListDocumentsOk document_list
                 \<lparr>total_count = n_total, returned_count = length document_list,
                  offset = off, limit = lmt\<rparr>
                 (''Found '' @ str_nat (length document_list) @ '' documents'' @
                   (if n_total > int (length document_list)
                    then '' (showing '' @ str_int (off + 1) @ ''-''
                           @ str_int (off + int (length document_list))
                           @ '' of '' @ str_int n_total @ '')''
                    else [])))))"

definition list_documents ::
  "'s env \<Rightarrow> 's DocumentService \<Rightarrow> int option \<Rightarrow> int \<Rightarrow> exc + response" where
  "list_documents env self lmt off =
     (case ensure_initialized self of
        Inl e \<Rightarrow> Inl e
      | Inr u \<Rightarrow>
          (case list_documents_body env self lmt off of
             Inl e \<Rightarrow>
               Inr (ErrorEnvelope ''document_listing_error''
                 (''Failed to list documents: '' @ str e)
                 [(''limit'', case lmt of None \<Rightarrow> VNone | Some l \<Rightarrow> VInt l),
                  (''offset'', VInt off), (''error'', VStr (str e))])
           | Inr r \<Rightarrow> Inr r))"

subsection \<open>search_documents\<close>

text \<open>The excerpt: \<^verbatim>\<open>if len(excerpt) > 200: excerpt = excerpt[:200] + "..."\<close>.\<close>

definition make_excerpt :: "string \<Rightarrow> string" where
  "make_excerpt c = (if length c > 200 then take 200 c @ ''...'' else c)"

definition to_search_result :: "VectorSearchResult \<Rightarrow> DocumentMetadata \<Rightarrow> SearchResult" where
  "to_search_result vector_result doc_metadata =
     \<lparr>sr_document_id = document_id vector_result,
      document_path = file_path doc_metadata,
      relevance_score = 1 - score vector_result,
      content_excerpt = make_excerpt (content vector_result),
      metadata = doc_metadata\<rparr>"

text \<open>
  The loop over \<^verbatim>\<open>vector_results\<close>: one metadata lookup per match, in order; a match
  whose lookup returns \<^verbatim>\<open>None\<close> appends nothing; a lookup that raises ends the loop.
  In \<open>search_documents_body\<close> the test \<^verbatim>\<open>if not query_embedding\<close> holds for
  \<^verbatim>\<open>None\<close> and for the empty vector alike.
\<close>

fun collect_search_results ::
  "'s env \<Rightarrow> 's \<Rightarrow> VectorSearchResult list \<Rightarrow> SearchResult list \<Rightarrow> exc + SearchResult list" where
  "collect_search_results env s [] search_results = Inr search_results"
| "collect_search_results env s (v # vs) search_results =
     (case get_document_metadata env s (document_id v) of
        Inl e \<Rightarrow> Inl e
      | Inr None \<Rightarrow> collect_search_results env s vs search_results
      | Inr (Some doc_metadata) \<Rightarrow>
          collect_search_results env s vs (search_results @ [to_search_result v doc_metadata]))"

definition result_to_dict :: "SearchResult \<Rightarrow> result_dict" where
  "result_to_dict r =
     \<lparr>rd_document_id = sr_document_id r,
      rd_document_path = document_path r,
      rd_relevance_score = py_round (relevance_score r) 4,
      rd_content_excerpt = content_excerpt r,
      rd_metadata =
        \<lparr>rm_id = id' (metadata r), rm_file_name = file_name (metadata r),
         rm_file_type = file_type (metadata r), rm_file_size = file_size (metadata r),
         rm_ingestion_timestamp = map_option isoformat (ingestion_timestamp (metadata r)),
         rm_chunk_count = chunk_count (metadata r)\<rparr>\<rparr>"

definition search_documents_body ::
  "'s env \<Rightarrow> 's DocumentService \<Rightarrow> string \<Rightarrow> int \<Rightarrow> exc + response" where
  "search_documents_body env self query lmt =
     (if strip query = []
      then Inr (ErrorEnvelope ''invalid_query'' ''Search query cannot be empty''
                  [(''query'', VStr query)])
      else
        (case generate_embedding env (strip query) of
           Inl e \<Rightarrow> Inl e
         | Inr query_embedding \<Rightarrow>
             (case (case query_embedding of None \<Rightarrow> [] | Some qv \<Rightarrow> qv) of
                [] \<Rightarrow>
                  Inr (ErrorEnvelope ''embedding_generation_error''
                         ''Failed to generate embedding for query'' [(''query'', VStr query)])
              | x # xs \<Rightarrow>
                (case search_vectors env (db_manager self) (x # xs) lmt of
                   Inl e \<Rightarrow> Inl e
                 | Inr vector_results \<Rightarrow>
                     (case collect_search_results env (db_manager self) vector_results [] of
                        Inl e \<Rightarrow> Inl e
                      | Inr search_results \<Rightarrow>
                          (let results_list = map result_to_dict search_results in
                           Inr (SearchDocumentsOk results_list query (length results_list)
                             (''Found '' @ str_nat (length results_list)
                                @ '' relevant documents'' @
                              (if int (length results_list) = lmt
                               then '' (showing top '' @ str_int lmt @ '')''
                               else [])))))))))"

definition search_documents ::
  "'s env \<Rightarrow> 's DocumentService \<Rightarrow> string \<Rightarrow> int \<Rightarrow> exc + response" where
  "search_documents env self query lmt =
     (case ensure_initialized self of
        Inl e \<Rightarrow> Inl e
      | Inr u \<Rightarrow>
          (case search_documents_body env self query lmt of
             Inl e \<Rightarrow>
               Inr (ErrorEnvelope ''document_search_error''
                 (''Failed to search documents: '' @ str e)
                 [(''query'', VStr query), (''limit'', VInt lmt), (''error'', VStr (str e))])
           | Inr r \<Rightarrow> Inr r))"

subsection \<open>clear_knowledge_base\<close>

definition clear_knowledge_base ::
  "'s env \<Rightarrow> 's DocumentService \<Rightarrow> (exc + response) \<times> 's DocumentService" where
  "clear_knowledge_base env self =
     (case ensure_initialized self of
        Inl e \<Rightarrow> (Inl e, self)
      | Inr u \<Rightarrow>
          (case clear_all_documents env (db_manager self) of
             (Inl e, s) \<Rightarrow>
               (Inr (ErrorEnvelope ''knowledge_base_clear_error''
                  (''Failed to clear knowledge base: '' @ str e)
                  [(''error'', VStr (str e))]), self\<lparr>db_manager := s\<rparr>)
           | (Inr documents_removed, s) \<Rightarrow>
               (Inr (ClearOk documents_removed
                  (''Successfully cleared '' @ str_int documents_removed
                     @ '' documents from the knowledge base'')),
                self\<lparr>db_manager := s\<rparr>)))"

section \<open>The tool layer (server.py)\<close>

text \<open>
  Modelled from the spec: \<^verbatim>\<open>errors.py\<close> (the validators, \<^verbatim>\<open>to_dict\<close> and
  \<^verbatim>\<open>create_error_response\<close>) is not among the sources. By the spec's sections 6 and 7
  every error response carries \<^verbatim>\<open>success: false\<close> with an \<^verbatim>\<open>error_type\<close>, an
  \<^verbatim>\<open>error_message\<close> and \<^verbatim>\<open>error_details\<close>, and a parameter-validation error rejects a
  bad input before any I/O. The validators check the bounds \<^verbatim>\<open>server.py\<close> passes them;
  \<^verbatim>\<open>None\<close> as a limit means no limit and passes. The literal tags and messages are
  this model's. The logging helpers (\<^verbatim>\<open>log_operation_start\<close> and the like) write a log
  line and have no part in the result.
\<close>

definition validate_limit_parameter :: "int option \<Rightarrow> int \<Rightarrow> int \<Rightarrow> string \<Rightarrow> exc + unit" where
  "validate_limit_parameter lmt min_value max_value parameter_name =
     (case lmt of
        None \<Rightarrow> Inr ()
      | Some n \<Rightarrow>
          if n < min_value \<or> max_value < n
          then Inl (ParameterValidationError
                 (parameter_name @ '' must be between '' @ str_int min_value
                    @ '' and '' @ str_int max_value)
                 [(''parameter'', VStr parameter_name), (''value'', VInt n)])
          else Inr ())"

definition validate_offset_parameter :: "int \<Rightarrow> int \<Rightarrow> exc + unit" where
  "validate_offset_parameter off max_value =
     (if off < 0 \<or> max_value < off
      then Inl (ParameterValidationError
             (''offset must be between 0 and '' @ str_int max_value)
             [(''parameter'', VStr ''offset''), (''value'', VInt off)])
      else Inr ())"

fun to_dict :: "exc \<Rightarrow> response" where
  "to_dict (ParameterValidationError m d) = ErrorEnvelope ''parameter_validation_error'' m d"
| "to_dict (KnowledgeBaseError t m d) = ErrorEnvelope t m d"
| "to_dict (FileProcessingError t m d) = ErrorEnvelope t m d"
| "to_dict (RuntimeError m) = ErrorEnvelope ''unexpected_error'' m []"
| "to_dict (Exception m) = ErrorEnvelope ''unexpected_error'' m []"

definition create_error_response :: "exc \<Rightarrow> details \<Rightarrow> response" where
  "create_error_response e context = ErrorEnvelope ''unexpected_error'' (str e) context"

text \<open>
  The three \<^verbatim>\<open>except\<close> clauses that close every tool operation, in the source's order:
  \<^verbatim>\<open>ParameterValidationError\<close> and \<^verbatim>\<open>KnowledgeBaseError\<close> answer with \<^verbatim>\<open>e.to_dict()\<close>,
  \<^verbatim>\<open>Exception\<close> with \<^verbatim>\<open>create_error_response(e, context=...)\<close>.
\<close>

fun tool_except :: "details \<Rightarrow> exc \<Rightarrow> response" where
  "tool_except context (ParameterValidationError m d) = to_dict (ParameterValidationError m d)"
| "tool_except context (KnowledgeBaseError t m d) = to_dict (KnowledgeBaseError t m d)"
| "tool_except context e = create_error_response e context"


text \<open>
  The global \<^verbatim>\<open>_document_service\<close> is the state of the tool layer. On first use the
  service is constructed and assigned, then initialised; a failing \<^verbatim>\<open>initialize()\<close>
  leaves the constructed, uninitialised service assigned.
\<close>

definition get_document_service ::
  "'s env \<Rightarrow> 's DocumentService option \<Rightarrow> (exc + 's DocumentService) \<times> 's DocumentService option" where
  "get_document_service env g =
     (case g of
        Some self \<Rightarrow> (Inr self, g)
      | None \<Rightarrow>
          (case from_env env of
             Inl e \<Rightarrow> (Inl e, None)
           | Inr config \<Rightarrow>
               (case new_DocumentService env config of
                  Inl e \<Rightarrow> (Inl e, None)
                | Inr self \<Rightarrow>
                    (case initialize env self of
                       (Inl e, self') \<Rightarrow> (Inl e, Some self')
                     | (Inr u, self') \<Rightarrow> (Inr self', Some self')))))"


definition mcp_list_documents ::
  "'s env \<Rightarrow> 's DocumentService option \<Rightarrow> int option \<Rightarrow> int
     \<Rightarrow> (exc + response) \<times> 's DocumentService option" where
  "mcp_list_documents env g lmt0 off =
     (let lmt = (if lmt0 = Some 0 then None else lmt0);
          context = [(''limit'', case lmt of None \<Rightarrow> VNone | Some l \<Rightarrow> VInt l),
                     (''offset'', VInt off), (''operation'', VStr ''list_documents'')] in
      case validate_limit_parameter lmt 1 1000 ''limit'' of
        Inl e \<Rightarrow> (Inr (tool_except context e), g)
      | Inr u \<Rightarrow>
          (case validate_offset_parameter off 100000 of
             Inl e \<Rightarrow> (Inr (tool_except context e), g)
           | Inr u' \<Rightarrow>
               (case get_document_service env g of
                  (Inl e, g') \<Rightarrow> (Inr (tool_except context e), g')
                | (Inr doc_service, g') \<Rightarrow>
                    (case list_documents env doc_service lmt off of
                       Inl e \<Rightarrow> (Inr (tool_except context e), g')
                     | Inr result \<Rightarrow> (Inr result, g')))))"



section \<open>The vector store\<close>

text \<open>
  Modelled from the spec: \<^verbatim>\<open>storage/lancedb_manager.py\<close> is not among the sources.
  Section 4.3 of the spec gives the contract modelled here: the documents are kept in
  ingestion order; \<^verbatim>\<open>list_all_documents(limit, offset)\<close> skips \<open>offset\<close> records and
  caps the count at \<open>limit\<close>, \<^verbatim>\<open>limit = None\<close> meaning unbounded;
  \<^verbatim>\<open>get_document_count()\<close> is the number of documents stored;
  \<^verbatim>\<open>get_document_metadata(id)\<close> is a point lookup that returns \<^verbatim>\<open>None\<close> if absent;
  \<^verbatim>\<open>clear_all_documents()\<close> deletes every document and chunk record and returns the
  number of documents removed.
\<close>

record store =
  stored_documents :: "DocumentMetadata list"
  stored_chunks :: "DocumentChunk list"

definition store_list_all_documents :: "store \<Rightarrow> int option \<Rightarrow> int \<Rightarrow> exc + DocumentMetadata list" where
  "store_list_all_documents s lmt off =
     Inr (case lmt of
            None \<Rightarrow> drop (nat off) (stored_documents s)
          | Some l \<Rightarrow> take (nat l) (drop (nat off) (stored_documents s)))"

definition store_get_document_count :: "store \<Rightarrow> exc + int" where
  "store_get_document_count s = Inr (int (length (stored_documents s)))"

definition store_get_document_metadata :: "store \<Rightarrow> string \<Rightarrow> exc + DocumentMetadata option" where
  "store_get_document_metadata s i = Inr (find (\<lambda>d. id' d = i) (stored_documents s))"

definition store_clear_all_documents :: "store \<Rightarrow> (exc + int) \<times> store" where
  "store_clear_all_documents s =
     (Inr (int (length (stored_documents s))), \<lparr>stored_documents = [], stored_chunks = []\<rparr>)"

text \<open>An environment whose store operations are those of the contract.\<close>

definition with_store :: "store env \<Rightarrow> store env" where
  "with_store env =
     env\<lparr>list_all_documents := store_list_all_documents,
         get_document_count := store_get_document_count,
         get_document_metadata := store_get_document_metadata,
         clear_all_documents := store_clear_all_documents\<rparr>"

section \<open>The chunker\<close>

text \<open>
  Modelled from the spec: \<^verbatim>\<open>processors/content_extractor.py\<close> is not among the sources.
  Section 4.1 of the spec: plain text is split into a sliding window of target length
  \<open>chunk_size\<close> with \<open>chunk_overlap\<close> characters repeated at the start of each
  subsequent window; the final chunk may be shorter than \<open>chunk_size\<close>. A text that
  fits into one window is one chunk, the empty text has none. \<open>chunk_overlap\<close> below
  \<open>chunk_size\<close> is the configuration invariant checked at startup; outside it the
  window cannot advance and the text is left as one chunk.
\<close>

function sliding_window :: "nat \<Rightarrow> nat \<Rightarrow> string \<Rightarrow> string list" where
  "sliding_window size_c overlap raw =
     (if raw = [] then []
      else if length raw \<le> size_c \<or> size_c \<le> overlap then [raw]
      else take size_c raw # sliding_window size_c overlap (drop (size_c - overlap) raw))"
  by pat_completeness auto
termination
  by (relation "measure (\<lambda>(size_c, overlap, raw). length raw)") auto

declare sliding_window.simps [simp del]

section \<open>Notions used to state the properties\<close>

text \<open>
  The metadata a match resolves to: the record \<^verbatim>\<open>get_document_metadata\<close> returns for
  its \<^verbatim>\<open>document_id\<close>, if the lookup returns one.
\<close>

definition resolved :: "'s env \<Rightarrow> 's \<Rightarrow> VectorSearchResult \<Rightarrow> DocumentMetadata option" where
  "resolved env s v =
     (case get_document_metadata env s (document_id v) of
        Inr (Some md) \<Rightarrow> Some md
      | _ \<Rightarrow> None)"

definition resolvable :: "'s env \<Rightarrow> 's \<Rightarrow> VectorSearchResult \<Rightarrow> bool" where
  "resolvable env s v = (resolved env s v \<noteq> None)"

fun results_of :: "exc + response \<Rightarrow> result_dict list" where
  "results_of (Inr (SearchDocumentsOk rs q n m)) = rs"
| "results_of r = []"

fun result_count_of :: "exc + response \<Rightarrow> nat option" where
  "result_count_of (Inr (SearchDocumentsOk rs q n m)) = Some n"
| "result_count_of r = None"

fun documents_removed_of :: "exc + response \<Rightarrow> int option" where
  "documents_removed_of (Inr (ClearOk n m)) = Some n"
| "documents_removed_of r = None"

fun succeeded :: "exc + response \<Rightarrow> bool" where
  "succeeded (Inr r) = success r"
| "succeeded (Inl e) = False"

section \<open>A small knowledge base\<close>

text \<open>
  Two stored documents, and a store that answers every search with three matches: one
  of the first document, one whose document has no metadata record, and one of the second
  document that is far from the query and longer than an excerpt.
\<close>

definition demo_doc1 :: DocumentMetadata where
  "demo_doc1 = \<lparr>id' = ''d1'', file_path = ''/kb/a.txt'', file_name = ''a.txt'', file_size = 3,
     file_type = ''text'', content_hash = ''h1'', ingestion_timestamp = None, chunk_count = 1\<rparr>"

definition demo_doc2 :: DocumentMetadata where
  "demo_doc2 = \<lparr>id' = ''d2'', file_path = ''/kb/b.py'', file_name = ''b.py'', file_size = 201,
     file_type = ''source'', content_hash = ''h2'',
     ingestion_timestamp = Some (Datetime ''2024-01-01T00:00:00''), chunk_count = 1\<rparr>"

definition demo_store :: store where
  "demo_store =
     \<lparr>stored_documents = [demo_doc1, demo_doc2],
      stored_chunks =
        [\<lparr>chunk_id = ''c1'', chunk_document_id = ''d1'', chunk_index = 0,
          chunk_content = ''abc'', embedding = Some [1]\<rparr>,
         \<lparr>chunk_id = ''c2'', chunk_document_id = ''d2'', chunk_index = 0,
          chunk_content = replicate 201 (CHR ''x''), embedding = Some [0]\<rparr>]\<rparr>"

definition demo_matches :: "VectorSearchResult list" where
  "demo_matches =
     [\<lparr>document_id = ''d1'', content = ''abc'', score = 1 / 100000\<rparr>,
      \<lparr>document_id = ''gone'', content = ''xyz'', score = 1 / 2\<rparr>,
      \<lparr>document_id = ''d2'', content = replicate 201 (CHR ''x''), score = 3 / 2\<rparr>]"

definition demo_env :: "store env" where
  "demo_env = with_store
     \<lparr>from_env = Inr \<lparr>chunk_size = 100, chunk_overlap = 20\<rparr>,
      new_db_manager = (\<lambda>c. Inr demo_store),
      initialize_database = (\<lambda>s. (Inr (), s)),
      load_model = Inr (),
      extract_and_chunk = (\<lambda>p. Inl (FileProcessingError ''file_not_found'' ''File not found'' [])),
      utcnow = Datetime ''2024-01-02T00:00:00'',
      generate_embeddings = (\<lambda>ts. Inr (map (\<lambda>t. [1]) ts)),
      generate_embedding = (\<lambda>t. Inr (Some [1])),
      add_document_vectors = (\<lambda>s md cs.
        (Inr (), s\<lparr>stored_documents := stored_documents s @ [md],
                    stored_chunks := stored_chunks s @ cs\<rparr>)),
      list_all_documents = store_list_all_documents,
      get_document_count = store_get_document_count,
      get_document_metadata = store_get_document_metadata,
      search_vectors = (\<lambda>s q k. Inr (take (nat k) demo_matches)),
      clear_all_documents = store_clear_all_documents,
      validate_file_path = (\<lambda>p. Inr ()),
      validate_query_parameter = (\<lambda>q a b. Inr ())\<rparr>"

definition demo_service :: "store DocumentService" where
  "demo_service = \<lparr>initialized = True, db_manager = demo_store\<rparr>"

text \<open>The same knowledge base with a store whose search raises.\<close>

definition failing_env :: "store env" where
  "failing_env = demo_env\<lparr>search_vectors := (\<lambda>s q k. Inl (Exception ''storage unavailable''))\<rparr>"

section \<open>Facts about rounding\<close>

lemma round_half_even_bounds:
  "of_int (round_half_even x) \<le> x + 1/2" "x - 1/2 \<le> of_int (round_half_even x)"
  unfolding round_half_even_def Let_def by (auto; linarith)+







section \<open>Facts about the search loop\<close>

lemma collect_search_results_eq:
  "collect_search_results env s vs acc = Inr rs \<Longrightarrow>
   rs = acc @ List.map_filter (\<lambda>v. map_option (to_search_result v) (resolved env s v)) vs"
proof (induction vs arbitrary: acc)
  case Nil
  then show ?case by (simp add: map_filter_simps)
next
  case (Cons v vs)
  show ?case
  proof (cases "get_document_metadata env s (document_id v)")
    case (Inl e)
    with Cons.prems show ?thesis by simp
  next
    case (Inr m)
    show ?thesis
    proof (cases m)
      case None
      with Inr Cons.prems have "collect_search_results env s vs acc = Inr rs" by simp
      from Cons.IH [OF this] Inr None show ?thesis
        by (simp add: resolved_def map_filter_simps)
    next
      case (Some md)
      with Inr Cons.prems
      have "collect_search_results env s vs (acc @ [to_search_result v md]) = Inr rs" by simp
      from Cons.IH [OF this] Inr Some show ?thesis
        by (simp add: resolved_def map_filter_simps)
    qed
  qed
qed

lemma collect_search_results_total:
  "(\<forall>v\<in>set vs. \<exists>m. get_document_metadata env s (document_id v) = Inr m) \<Longrightarrow>
   \<exists>rs. collect_search_results env s vs acc = Inr rs"
  by (induction vs arbitrary: acc) (auto split: sum.splits option.splits)

lemma map_filter_length: "length (List.map_filter f xs) = length (filter (\<lambda>x. f x \<noteq> None) xs)"
  by (induction xs) (auto simp: map_filter_simps split: option.splits)

lemma map_filter_all2:
  "list_all2 (\<lambda>r v. f v = Some r) (List.map_filter f vs) (filter (\<lambda>v. f v \<noteq> None) vs)"
  by (induction vs) (auto simp: map_filter_simps split: option.splits)

lemma search_documents_success:
  assumes "search_documents env self query lmt = Inr (SearchDocumentsOk rs q n msg)"
  shows "\<exists>x xs vrs. initialized self \<and> strip query \<noteq> [] \<and>
           generate_embedding env (strip query) = Inr (Some (x # xs)) \<and>
           search_vectors env (db_manager self) (x # xs) lmt = Inr vrs \<and>
           rs = map result_to_dict
                  (List.map_filter (\<lambda>v. map_option (to_search_result v)
                      (resolved env (db_manager self) v)) vrs) \<and>
           q = query \<and> n = length rs"
  using assms
  unfolding search_documents_def ensure_initialized_def search_documents_body_def Let_def
  by (auto split: if_splits sum.splits option.splits list.splits
           dest!: collect_search_results_eq)

lemma search_documents_matches:
  assumes "search_documents env self query lmt = Inr (SearchDocumentsOk rs q n msg)"
  shows "\<exists>qv vrs. search_vectors env (db_manager self) qv lmt = Inr vrs \<and>
           list_all2 (\<lambda>r v. \<exists>md. resolved env (db_manager self) v = Some md \<and>
                        r = result_to_dict (to_search_result v md))
             rs (filter (resolvable env (db_manager self)) vrs)"
proof -
  let ?f = "\<lambda>v. map_option (to_search_result v) (resolved env (db_manager self) v)"
  from search_documents_success [OF assms] obtain x xs vrs where
    sv: "search_vectors env (db_manager self) (x # xs) lmt = Inr vrs" and
    rs: "rs = map result_to_dict (List.map_filter ?f vrs)"
    by blast
  have "list_all2 (\<lambda>r v. ?f v = Some r) (List.map_filter ?f vrs) (filter (\<lambda>v. ?f v \<noteq> None) vrs)"
    by (rule map_filter_all2)
  then have "list_all2 (\<lambda>r v. \<exists>md. resolved env (db_manager self) v = Some md \<and>
                        r = result_to_dict (to_search_result v md))
             rs (filter (resolvable env (db_manager self)) vrs)"
    unfolding rs resolvable_def by (auto simp: list_all2_map1 elim!: list_all2_mono)
  with sv show ?thesis by blast
qed

lemmas demo_defs =
  demo_env_def with_store_def demo_service_def demo_store_def demo_doc1_def demo_doc2_def
  demo_matches_def failing_env_def

lemmas store_defs =
  store_list_all_documents_def store_get_document_count_def store_get_document_metadata_def
  store_clear_all_documents_def

lemmas search_defs =
  search_documents_def search_documents_body_def ensure_initialized_def strip_def is_space_def
  to_search_result_def result_to_dict_def make_excerpt_def resolvable_def resolved_def

lemma search_documents_succeeded:
  assumes "succeeded (search_documents env self query lmt)"
  shows "\<exists>rs n msg. search_documents env self query lmt = Inr (SearchDocumentsOk rs query n msg)"
  using assms
  unfolding search_documents_def ensure_initialized_def search_documents_body_def Let_def
  by (auto split: if_splits sum.splits option.splits list.splits)

lemma search_documents_results:
  assumes "succeeded (search_documents env self query lmt)"
  shows "\<exists>qv vrs. search_vectors env (db_manager self) qv lmt = Inr vrs \<and>
           list_all2 (\<lambda>r v. \<exists>md. resolved env (db_manager self) v = Some md \<and>
                        r = result_to_dict (to_search_result v md))
             (results_of (search_documents env self query lmt))
             (filter (resolvable env (db_manager self)) vrs)"
proof -
  from search_documents_succeeded [OF assms] obtain rs n msg where
    eq: "search_documents env self query lmt = Inr (SearchDocumentsOk rs query n msg)" by blast
  from search_documents_matches [OF eq] show ?thesis by (simp add: eq)
qed

section \<open>The excerpt of a search result\<close>

text \<open>
  C4. Every search result of \<^verbatim>\<open>search_documents\<close> comes from a match of the store whose
  metadata resolves, in the store's order, and its \<^verbatim>\<open>content_excerpt\<close> is the match's
  content when that has at most 200 characters, and otherwise its first 200 characters
  followed by three dots. The display length is the fixed number 200.
\<close>

theorem excerpt_truncated_at_200:
  assumes "succeeded (search_documents env self query lmt)"
  shows "\<exists>qv vrs. search_vectors env (db_manager self) qv lmt = Inr vrs \<and>
           list_all2 (\<lambda>r v. rd_content_excerpt r =
                        (if length (content v) \<le> 200 then content v
                         else take 200 (content v) @ ''...''))
             (results_of (search_documents env self query lmt))
             (filter (resolvable env (db_manager self)) vrs)"
proof -
  from search_documents_results [OF assms] obtain qv vrs where
    sv: "search_vectors env (db_manager self) qv lmt = Inr vrs" and
    m: "list_all2 (\<lambda>r v. \<exists>md. resolved env (db_manager self) v = Some md \<and>
                        r = result_to_dict (to_search_result v md))
             (results_of (search_documents env self query lmt))
             (filter (resolvable env (db_manager self)) vrs)"
    by blast
  from m have "list_all2 (\<lambda>r v. rd_content_excerpt r =
                        (if length (content v) \<le> 200 then content v
                         else take 200 (content v) @ ''...''))
             (results_of (search_documents env self query lmt))
             (filter (resolvable env (db_manager self)) vrs)"
    by (rule list_all2_mono) (auto simp: result_to_dict_def to_search_result_def make_excerpt_def)
  with sv show ?thesis by blast
qed

text \<open>The demonstration knowledge base: a short content is kept, one of 201 characters is cut.\<close>

lemma demo_search_succeeded: "succeeded (search_documents demo_env demo_service ''q'' 10)"
  by (simp add: search_defs demo_defs store_defs)

lemma demo_search_excerpts:
  "map rd_content_excerpt (results_of (search_documents demo_env demo_service ''q'' 10)) =
     [''abc'', replicate 200 (CHR ''x'') @ ''...'']"
  by (simp add: search_defs demo_defs store_defs)

theorem excerpt_truncated_at_200_witness:
  "succeeded (search_documents demo_env demo_service ''q'' 10) \<and>
   map rd_content_excerpt (results_of (search_documents demo_env demo_service ''q'' 10)) =
     [''abc'', replicate 200 (CHR ''x'') @ ''...''] \<and>
   (\<exists>qv vrs. search_vectors demo_env (db_manager demo_service) qv 10 = Inr vrs \<and>
      list_all2 (\<lambda>r v. rd_content_excerpt r =
                   (if length (content v) \<le> 200 then content v
                    else take 200 (content v) @ ''...''))
        (results_of (search_documents demo_env demo_service ''q'' 10))
        (filter (resolvable demo_env (db_manager demo_service)) vrs))"
  using excerpt_truncated_at_200 [OF demo_search_succeeded] demo_search_succeeded
    demo_search_excerpts by blast

section \<open>Matches without a metadata record\<close>

lemma search_documents_ok:
  assumes "initialized self" "strip query \<noteq> []"
    "generate_embedding env (strip query) = Inr (Some (x # xs))"
    "search_vectors env (db_manager self) (x # xs) lmt = Inr vrs"
    "\<forall>v\<in>set vrs. \<exists>m. get_document_metadata env (db_manager self) (document_id v) = Inr m"
  shows "\<exists>msg. search_documents env self query lmt =
           Inr (SearchDocumentsOk
                  (map result_to_dict (List.map_filter (\<lambda>v. map_option (to_search_result v)
                      (resolved env (db_manager self) v)) vrs))
                  query
                  (length (filter (resolvable env (db_manager self)) vrs)) msg)"
proof -
  from collect_search_results_total [OF assms(5), of "[]"] obtain rs where
    c: "collect_search_results env (db_manager self) vrs [] = Inr rs" by blast
  from collect_search_results_eq [OF c]
  have rs: "rs = List.map_filter (\<lambda>v. map_option (to_search_result v)
                      (resolved env (db_manager self) v)) vrs" by simp
  have len: "length rs = length (filter (resolvable env (db_manager self)) vrs)"
    unfolding rs resolvable_def by (simp add: map_filter_length)
  show ?thesis
    using assms(1-4) c len
    unfolding search_documents_def ensure_initialized_def search_documents_body_def Let_def
    by (simp add: rs)
qed

lemma map_filter_ids:
  "map (rd_document_id \<circ> result_to_dict)
     (List.map_filter (\<lambda>v. map_option (to_search_result v) (resolved env s v)) vs) =
   map document_id (filter (resolvable env s) vs)"
  by (induction vs)
     (auto simp: map_filter_simps resolvable_def result_to_dict_def to_search_result_def
           split: option.splits)

text \<open>
  C10. When the query is not blank, its embedding is a non-empty vector, the store
  answers the search and no metadata lookup raises, \<^verbatim>\<open>search_documents\<close> reports
  success; its results are, in order, the matches whose metadata lookup returns a record,
  the others being dropped without notice; \<^verbatim>\<open>result_count\<close> is the number of those
  matches, which may be smaller than the number of matches the store returned.
\<close>

theorem unresolved_matches_dropped:
  assumes "initialized self" "strip query \<noteq> []"
    "generate_embedding env (strip query) = Inr (Some (x # xs))"
    "search_vectors env (db_manager self) (x # xs) lmt = Inr vrs"
    "\<forall>v\<in>set vrs. \<exists>m. get_document_metadata env (db_manager self) (document_id v) = Inr m"
  shows "succeeded (search_documents env self query lmt) \<and>
         result_count_of (search_documents env self query lmt) =
           Some (length (filter (resolvable env (db_manager self)) vrs)) \<and>
         map rd_document_id (results_of (search_documents env self query lmt)) =
           map document_id (filter (resolvable env (db_manager self)) vrs) \<and>
         length (results_of (search_documents env self query lmt)) \<le> length vrs"
proof -
  from search_documents_ok [OF assms] obtain msg where
    eq: "search_documents env self query lmt =
           Inr (SearchDocumentsOk
                  (map result_to_dict (List.map_filter (\<lambda>v. map_option (to_search_result v)
                      (resolved env (db_manager self) v)) vrs))
                  query
                  (length (filter (resolvable env (db_manager self)) vrs)) msg)" by blast
  have "length (List.map_filter (\<lambda>v. map_option (to_search_result v)
                      (resolved env (db_manager self) v)) vrs) \<le> length vrs"
    by (simp add: map_filter_length)
  then show ?thesis
    unfolding eq by (simp add: map_filter_ids)
qed

theorem unresolved_matches_dropped_witness:
  "search_vectors demo_env (db_manager demo_service) [1] 10 = Inr demo_matches \<and>
   length demo_matches = 3 \<and>
   succeeded (search_documents demo_env demo_service ''q'' 10) \<and>
   result_count_of (search_documents demo_env demo_service ''q'' 10) = Some 2 \<and>
   map rd_document_id (results_of (search_documents demo_env demo_service ''q'' 10)) =
     [''d1'', ''d2'']"
proof -
  have h1: "initialized demo_service" by (simp add: demo_defs)
  have h2: "strip ''q'' \<noteq> []" by (simp add: strip_def is_space_def)
  have h3: "generate_embedding demo_env (strip ''q'') = Inr (Some [1])" by (simp add: demo_defs)
  have h4: "search_vectors demo_env (db_manager demo_service) [1] 10 = Inr demo_matches"
    by (simp add: demo_defs)
  have h5: "\<forall>v\<in>set demo_matches.
      \<exists>m. get_document_metadata demo_env (db_manager demo_service) (document_id v) = Inr m"
    by (simp add: demo_defs store_defs)
  have f: "map document_id (filter (resolvable demo_env (db_manager demo_service)) demo_matches)
             = [''d1'', ''d2'']"
    by (simp add: demo_defs store_defs resolvable_def resolved_def)
  then have "length (map document_id
        (filter (resolvable demo_env (db_manager demo_service)) demo_matches)) = 2" by simp
  then have l: "length (filter (resolvable demo_env (db_manager demo_service)) demo_matches) = 2"
    by simp
  have l3: "length demo_matches = 3" by (simp add: demo_defs)
  from unresolved_matches_dropped [OF h1 h2 h3 h4 h5] h4 f l l3 show ?thesis by simp
qed

section \<open>The relevance score\<close>

text \<open>
  C3, as the code has it. The store returns the raw distance; the relevance score that
  \<^verbatim>\<open>search_documents\<close> reports for a match of distance \<open>d\<close> is \<open>1 - d\<close> rounded to
  four decimal places, both computed by the orchestrator.
\<close>

theorem relevance_score_is_rounded_similarity:
  assumes "succeeded (search_documents env self query lmt)"
  shows "\<exists>qv vrs. search_vectors env (db_manager self) qv lmt = Inr vrs \<and>
           list_all2 (\<lambda>r v. rd_relevance_score r = py_round (1 - score v) 4)
             (results_of (search_documents env self query lmt))
             (filter (resolvable env (db_manager self)) vrs)"
proof -
  from search_documents_results [OF assms] obtain qv vrs where
    sv: "search_vectors env (db_manager self) qv lmt = Inr vrs" and
    m: "list_all2 (\<lambda>r v. \<exists>md. resolved env (db_manager self) v = Some md \<and>
                        r = result_to_dict (to_search_result v md))
             (results_of (search_documents env self query lmt))
             (filter (resolvable env (db_manager self)) vrs)"
    by blast
  from m have "list_all2 (\<lambda>r v. rd_relevance_score r = py_round (1 - score v) 4)
             (results_of (search_documents env self query lmt))
             (filter (resolvable env (db_manager self)) vrs)"
    by (rule list_all2_mono) (auto simp: result_to_dict_def to_search_result_def)
  with sv show ?thesis by blast
qed

theorem relevance_score_is_rounded_similarity_witness:
  "succeeded (search_documents demo_env demo_service ''q'' 10) \<and>
   map score (filter (resolvable demo_env (db_manager demo_service)) demo_matches) =
     [1 / 100000, 3 / 2] \<and>
   map rd_relevance_score (results_of (search_documents demo_env demo_service ''q'' 10)) =
     [1, - (1 / 2)] \<and>
   (\<exists>qv vrs. search_vectors demo_env (db_manager demo_service) qv 10 = Inr vrs \<and>
      list_all2 (\<lambda>r v. rd_relevance_score r = py_round (1 - score v) 4)
        (results_of (search_documents demo_env demo_service ''q'' 10))
        (filter (resolvable demo_env (db_manager demo_service)) vrs))"
proof -
  have s: "map score (filter (resolvable demo_env (db_manager demo_service)) demo_matches) =
     [1 / 100000, 3 / 2]"
    by (simp add: demo_defs store_defs resolvable_def resolved_def)
  have r: "map rd_relevance_score (results_of (search_documents demo_env demo_service ''q'' 10)) =
     [1, - (1 / 2)]"
    by (simp add: search_defs demo_defs store_defs py_round_def round_half_even_def)
  from relevance_score_is_rounded_similarity [OF demo_search_succeeded]
    demo_search_succeeded s r show ?thesis by blast
qed

text \<open>
  The claim as stated fails: a match at distance \<open>1/100000\<close> is reported with the
  relevance score \<open>1\<close>, not \<open>99999/100000\<close>.
\<close>

theorem relevance_score_exact_counterexample:
  "search_vectors demo_env (db_manager demo_service) [1] 1 =
     Inr [\<lparr>document_id = ''d1'', content = ''abc'', score = 1 / 100000\<rparr>] \<and>
   map rd_relevance_score (results_of (search_documents demo_env demo_service ''q'' 1)) = [1] \<and>
   (1 :: real) \<noteq> 1 - 1 / 100000"
  by (simp add: search_defs demo_defs store_defs py_round_def round_half_even_def)






section \<open>Pagination\<close>

lemmas with_store_simps =
  with_store_def store_list_all_documents_def store_get_document_count_def
  store_get_document_metadata_def store_clear_all_documents_def



section \<open>Clearing the knowledge base\<close>

text \<open>
  C6. Over the store of the contract, starting from a store with at least one document,
  \<^verbatim>\<open>clear_knowledge_base\<close> returns a \<open>documents_removed\<close> count that is not zero (the
  number of documents stored); after it \<^verbatim>\<open>get_document_count()\<close> is 0, and a second
  \<^verbatim>\<open>clear_knowledge_base\<close> right after returns \<open>documents_removed\<close> equal to zero.
\<close>

theorem clear_twice:
  assumes "initialized self" "stored_documents (db_manager self) \<noteq> []"
  shows "documents_removed_of (fst (clear_knowledge_base (with_store env) self)) =
           Some (int (length (stored_documents (db_manager self)))) \<and>
         int (length (stored_documents (db_manager self))) \<noteq> 0 \<and>
         store_get_document_count
           (db_manager (snd (clear_knowledge_base (with_store env) self))) = Inr 0 \<and>
         documents_removed_of
           (fst (clear_knowledge_base (with_store env)
                   (snd (clear_knowledge_base (with_store env) self)))) = Some 0"
  using assms
  unfolding clear_knowledge_base_def ensure_initialized_def
  by (simp add: with_store_simps)

theorem clear_twice_witness:
  "initialized demo_service \<and> stored_documents (db_manager demo_service) \<noteq> [] \<and>
   documents_removed_of (fst (clear_knowledge_base (with_store demo_env) demo_service)) = Some 2 \<and>
   store_get_document_count
     (db_manager (snd (clear_knowledge_base (with_store demo_env) demo_service))) = Inr 0 \<and>
   documents_removed_of
     (fst (clear_knowledge_base (with_store demo_env)
             (snd (clear_knowledge_base (with_store demo_env) demo_service)))) = Some 0"
proof -
  have h1: "initialized demo_service" by (simp add: demo_defs)
  have h2: "stored_documents (db_manager demo_service) \<noteq> []" by (simp add: demo_defs)
  have l: "length (stored_documents (db_manager demo_service)) = 2" by (simp add: demo_defs)
  from clear_twice [OF h1 h2, of demo_env] h1 h2 l show ?thesis by simp
qed

section \<open>Parameter validation of list_documents\<close>

text \<open>
  C9. The tool \<^verbatim>\<open>list_documents\<close> treats \<open>limit = 0\<close> as \<^verbatim>\<open>None\<close>, no limit, before it
  validates. A limit other than 0 outside \<open>1..1000\<close>, or an offset outside
  \<open>0..100000\<close>, is answered with the envelope of a \<^verbatim>\<open>ParameterValidationError\<close>; the
  answer is the same whatever the collaborators and the service are, and the state of
  the tool layer is returned as it was: the service is neither created nor called.
\<close>

theorem list_documents_rejects_out_of_range:
  "mcp_list_documents (env :: 's env) g (Some 0) off = mcp_list_documents env g None off \<and>
   ((\<exists>l. lmt0 = Some l \<and> l \<noteq> 0 \<and> (l < 1 \<or> 1000 < l)) \<or> off < 0 \<or> 100000 < off \<longrightarrow>
    (\<exists>m d. \<forall>(env' :: 's env) g'.
       mcp_list_documents env' g' lmt0 off = (Inr (to_dict (ParameterValidationError m d)), g')))"
proof (intro conjI impI)
  show "mcp_list_documents env g (Some 0) off = mcp_list_documents env g None off"
    unfolding mcp_list_documents_def by simp
next
  assume bad: "(\<exists>l. lmt0 = Some l \<and> l \<noteq> 0 \<and> (l < 1 \<or> 1000 < l)) \<or> off < 0 \<or> 100000 < off"
  show "\<exists>m d. \<forall>(env' :: 's env) g'.
       mcp_list_documents env' g' lmt0 off = (Inr (to_dict (ParameterValidationError m d)), g')"
  proof (cases "\<exists>l. lmt0 = Some l \<and> l \<noteq> 0 \<and> (l < 1 \<or> 1000 < l)")
    case True
    then obtain l where l: "lmt0 = Some l" "l \<noteq> 0" "l < 1 \<or> 1000 < l" by blast
    then show ?thesis
      unfolding mcp_list_documents_def validate_limit_parameter_def Let_def
      by (intro exI allI) simp
  next
    case False
    with bad have off: "off < 0 \<or> 100000 < off" by blast
    from False have ok: "validate_limit_parameter (if lmt0 = Some 0 then None else lmt0)
                           1 1000 ''limit'' = Inr ()"
      unfolding validate_limit_parameter_def by (cases lmt0) auto
    from off show ?thesis
      unfolding mcp_list_documents_def validate_offset_parameter_def Let_def ok
      by (intro exI allI) simp
  qed
qed

theorem list_documents_rejects_out_of_range_witness:
  "mcp_list_documents demo_env None (Some 0) 0 = mcp_list_documents demo_env None None 0 \<and>
   fst (mcp_list_documents demo_env None (Some 0) 5) = list_documents demo_env demo_service None 5 \<and>
   (1000 :: int) < 1001 \<and>
   (\<exists>m d. mcp_list_documents demo_env None (Some 1001) 0 =
            (Inr (to_dict (ParameterValidationError m d)), None) \<and>
          mcp_list_documents failing_env (Some demo_service) (Some 1001) 0 =
            (Inr (to_dict (ParameterValidationError m d)), Some demo_service))"
proof -
  have b: "(\<exists>l. Some (1001 :: int) = Some l \<and> l \<noteq> 0 \<and> (l < 1 \<or> 1000 < l)) \<or>
           (0 :: int) < 0 \<or> 100000 < (0 :: int)" by simp
  have c: "fst (mcp_list_documents demo_env None (Some 0) 5) =
             list_documents demo_env demo_service None 5"
    by (simp add: mcp_list_documents_def validate_limit_parameter_def
          validate_offset_parameter_def get_document_service_def new_DocumentService_def
          initialize_def demo_defs list_documents_def list_documents_body_def
          ensure_initialized_def store_defs)
  from list_documents_rejects_out_of_range [of demo_env None 0 "Some 1001"] b
  obtain m d where
    z: "mcp_list_documents demo_env None (Some 0) 0 = mcp_list_documents demo_env None None 0" and
    md: "\<And>(env' :: store env) g'. mcp_list_documents env' g' (Some 1001) 0 =
           (Inr (to_dict (ParameterValidationError m d)), g')"
    by blast
  have "mcp_list_documents demo_env None (Some 1001) 0 =
            (Inr (to_dict (ParameterValidationError m d)), None) \<and>
          mcp_list_documents failing_env (Some demo_service) (Some 1001) 0 =
            (Inr (to_dict (ParameterValidationError m d)), Some demo_service)"
    by (simp only: md)
  then have e: "\<exists>m d. mcp_list_documents demo_env None (Some 1001) 0 =
            (Inr (to_dict (ParameterValidationError m d)), None) \<and>
          mcp_list_documents failing_env (Some demo_service) (Some 1001) 0 =
            (Inr (to_dict (ParameterValidationError m d)), Some demo_service)"
    by blast
  have n: "(1000 :: int) < 1001" by simp
  from z c n e show ?thesis by (intro conjI)
qed

section \<open>The overlap of consecutive chunks\<close>

lemma sliding_window_hd:
  assumes "overlap < size_c" "raw \<noteq> []"
  shows "sliding_window size_c overlap raw \<noteq> [] \<and>
         hd (sliding_window size_c overlap raw) = take size_c raw"
  using assms by (subst sliding_window.simps, simp)+

lemma sliding_window_consecutive:
  assumes "0 < overlap" "overlap < size_c"
  shows "Suc i < length (sliding_window size_c overlap raw) \<Longrightarrow>
         length (sliding_window size_c overlap raw ! i) = size_c \<and>
         drop (size_c - overlap) (sliding_window size_c overlap raw ! i) =
           take overlap (sliding_window size_c overlap raw ! Suc i) \<and>
         length (take overlap (sliding_window size_c overlap raw ! Suc i)) = overlap"
proof (induction size_c overlap raw arbitrary: i rule: sliding_window.induct)
  case (1 size_c overlap raw)
  let ?rest = "drop (size_c - overlap) raw"
  let ?cs' = "sliding_window size_c overlap ?rest"
  from "1.prems" have long: "raw \<noteq> []" "\<not> (length raw \<le> size_c \<or> size_c \<le> overlap)"
    by (subst (asm) sliding_window.simps, auto split: if_splits)+
  then have unfold: "sliding_window size_c overlap raw = take size_c raw # ?cs'"
    by (subst sliding_window.simps) simp
  from long have ov: "overlap < size_c" and len: "size_c < length raw" by auto
  then have rest_len: "overlap < length ?rest" by simp
  then have rest_ne: "?rest \<noteq> []" by auto
  from sliding_window_hd [OF ov rest_ne]
  have ne: "?cs' \<noteq> []" and hd: "hd ?cs' = take size_c ?rest" by auto
  show ?case
  proof (cases i)
    case 0
    have a: "length (take size_c raw) = size_c" using len by simp
    have "drop (size_c - overlap) (take size_c raw) = take overlap ?rest"
      using ov by (simp add: drop_take)
    moreover have "take overlap (hd ?cs') = take overlap ?rest"
      using ov by (simp add: hd min_def)
    moreover have "?cs' ! 0 = hd ?cs'" using ne by (simp add: hd_conv_nth)
    ultimately show ?thesis
      using a rest_len unfolding unfold 0 by simp
  next
    case (Suc j)
    from "1.prems" have "Suc j < length ?cs'" unfolding unfold Suc by simp
    from "1.IH" [OF long(1) long(2) this] show ?thesis
      unfolding unfold Suc by simp
  qed
qed

lemma sliding_window_alphabet:
  "sliding_window 10 2 ''abcdefghijklmnopqrstuvwxyz'' =
     [''abcdefghij'', ''ijklmnopqr'', ''qrstuvwxyz'']"
  by (simp add: sliding_window.simps)

text \<open>
  The model on the example of the spec's section 8: 250 characters with
  \<open>chunk_size = 100\<close> and \<open>chunk_overlap = 20\<close> give three chunks of 100, 100 and 90
  characters.
\<close>

lemma sliding_window_250:
  "map length (sliding_window 100 20 (replicate 250 (CHR ''a''))) = [100, 100, 90]"
  by (simp add: sliding_window.simps)


text \<open>
  C7. For the sliding window of the spec, any text and any configuration with
  \<open>0 < chunk_overlap < chunk_size\<close>: whenever chunk \<open>i\<close> has a successor, the last
  \<open>chunk_overlap\<close> characters of chunk \<open>i\<close> are the first \<open>chunk_overlap\<close>
  characters of chunk \<open>i + 1\<close> (which has that many), and chunk \<open>i\<close> has exactly
  \<open>chunk_size\<close> characters; so only the final chunk may be shorter.
\<close>

theorem chunk_overlap_invariant:
  assumes "0 < overlap" "overlap < size_c"
    "Suc i < length (sliding_window size_c overlap raw)"
  shows "drop (length (sliding_window size_c overlap raw ! i) - overlap)
           (sliding_window size_c overlap raw ! i) =
           take overlap (sliding_window size_c overlap raw ! Suc i) \<and>
         length (take overlap (sliding_window size_c overlap raw ! Suc i)) = overlap \<and>
         length (sliding_window size_c overlap raw ! i) = size_c"
  using sliding_window_consecutive [OF assms] by simp

theorem chunk_overlap_invariant_witness:
  "(0 :: nat) < 2 \<and> (2 :: nat) < 10 \<and>
   sliding_window 10 2 ''abcdefghijklmnopqrstuvwxyz'' =
     [''abcdefghij'', ''ijklmnopqr'', ''qrstuvwxyz''] \<and>
   drop (length (sliding_window 10 2 ''abcdefghijklmnopqrstuvwxyz'' ! 1) - 2)
     (sliding_window 10 2 ''abcdefghijklmnopqrstuvwxyz'' ! 1) =
     take 2 (sliding_window 10 2 ''abcdefghijklmnopqrstuvwxyz'' ! Suc 1) \<and>
   take 2 (sliding_window 10 2 ''abcdefghijklmnopqrstuvwxyz'' ! Suc 1) = ''qr'' \<and>
   length (sliding_window 10 2 ''abcdefghijklmnopqrstuvwxyz'' ! 1) = 10"
proof -
  have h1: "(0 :: nat) < 2" and h2: "(2 :: nat) < 10" by simp_all
  have h3: "Suc 1 < length (sliding_window 10 2 ''abcdefghijklmnopqrstuvwxyz'')"
    by (simp add: sliding_window_alphabet)
  have t: "take 2 (sliding_window 10 2 ''abcdefghijklmnopqrstuvwxyz'' ! Suc 1) = ''qr''"
    by (simp add: sliding_window_alphabet)
  from chunk_overlap_invariant [OF h1 h2 h3] h1 h2 t sliding_window_alphabet
  show ?thesis by simp
qed

section \<open>The tool boundary\<close>
















end
